theory Spec2Isabelle
  imports Complex_Main "HOL-Library.Multiset"
begin

section \<open>The file-system scanner and reporter of \<open>file_system_info.py\<close>\<close>

text \<open>
  The program has two stages: \<open>get_file_info\<close> walks a directory and builds one record per
  file together with a \<open>treelib\<close> tree, and \<open>display_results\<close> groups the records, draws
  five bar charts and writes a PDF. Both are embedded here as HOL functions.

  Modelling decisions, each fixed once and used throughout:
  \<^item> Python's floats are idealised as exact rationals (\<^typ>\<open>rat\<close>). For a byte count below
    \<open>2 ^ 53\<close> the quotient \<open>file_size / 1024\<close> is exact in binary floating point, and
    \<open>round(x, 2)\<close> rounds the exact value of \<open>x\<close> half-to-even, so a record's size is
    determined by an integer number of hundredths. The rounding error of the float additions
    that pandas performs when it sums a column is not part of the model.
  \<^item> The file system holds regular files and directories. Symbolic links, special files and
    permission errors are not part of the model.
  \<^item> \<open>os.walk\<close>, \<open>os.path.join\<close>, \<open>mimetypes.guess_type\<close>, \<open>treelib.Tree\<close> and the pandas
    groupings are library code; they are modelled from their documented behaviour
    (POSIX paths), \<open>guess_type\<close> as a parameter of the scanner.
  \<^item> Output (printing, windows, charts, the PDF file) is a list of events.
\<close>

subsection \<open>Python's \<open>round(x, ndigits)\<close> on exact values\<close>

definition round_half_even :: "rat \<Rightarrow> int" where
  "round_half_even y =
     (let f = \<lfloor>y\<rfloor>; d = y - of_int f
      in if d < 1 / 2 then f
         else if 1 / 2 < d then f + 1
         else if even f then f else f + 1)"

definition py_round :: "rat \<Rightarrow> nat \<Rightarrow> rat" where
  "py_round x ndigits = of_int (round_half_even (x * 10 ^ ndigits)) / 10 ^ ndigits"

subsection \<open>The file system and its traversal\<close>

text \<open>
  A node is a regular file with its size in bytes, or a directory with its named entries
  in listing order.
\<close>

datatype fsnode = RegFile nat | Directory "(string \<times> fsnode) list"

text \<open>A file system resolves a path string to the node found there, if any.\<close>

type_synonym filesystem = "string \<rightharpoonup> fsnode"

text \<open>\<open>os.stat\<close> fails on the empty path, whatever the file system holds.\<close>

definition os_stat :: "filesystem \<Rightarrow> string \<Rightarrow> fsnode option" where
  "os_stat fs p = (if p = [] then None else fs p)"

definition os_path_exists :: "filesystem \<Rightarrow> string \<Rightarrow> bool" where
  "os_path_exists fs p = (os_stat fs p \<noteq> None)"

text \<open>\<open>posixpath.join(a, b)\<close>.\<close>

definition path_join :: "string \<Rightarrow> string \<Rightarrow> string" where
  "path_join a b =
     (if b \<noteq> [] \<and> hd b = CHR ''/'' then b
      else if a = [] \<or> last a = CHR ''/'' then a @ b
      else a @ ''/'' @ b)"

fun is_dir :: "fsnode \<Rightarrow> bool" where
  "is_dir (RegFile sz) = False"
| "is_dir (Directory es) = True"

text \<open>
  The names of the subdirectories of a listing, and its other entries. Each file name is
  paired with the size that \<open>os.path.getsize\<close> reads for that entry.
\<close>

fun dirnames :: "(string \<times> fsnode) list \<Rightarrow> string list" where
  "dirnames [] = []"
| "dirnames ((n, RegFile sz) # es) = dirnames es"
| "dirnames ((n, Directory ds) # es) = n # dirnames es"

fun nondirs :: "(string \<times> fsnode) list \<Rightarrow> (string \<times> nat) list" where
  "nondirs [] = []"
| "nondirs ((n, RegFile sz) # es) = (n, sz) # nondirs es"
| "nondirs ((n, Directory ds) # es) = nondirs es"

text \<open>
  \<open>os.walk(top)\<close>, top-down: the triple of the directory itself, then the walks of its
  subdirectories in listing order. Scanning something that is not a directory fails inside
  \<open>os.walk\<close>, which ignores the error and yields nothing.
\<close>

fun walk_node :: "string \<Rightarrow> fsnode \<Rightarrow> (string \<times> string list \<times> (string \<times> nat) list) list"
  and walk_subdirs ::
    "string \<Rightarrow> (string \<times> fsnode) list \<Rightarrow> (string \<times> string list \<times> (string \<times> nat) list) list" where
  "walk_node top_dir (RegFile sz) = []"
| "walk_node top_dir (Directory es) =
     (top_dir, dirnames es, nondirs es) # walk_subdirs top_dir es"
| "walk_subdirs top_dir [] = []"
| "walk_subdirs top_dir ((n, c) # es) =
     (if is_dir c then walk_node (path_join top_dir n) c else []) @ walk_subdirs top_dir es"

definition os_walk :: "filesystem \<Rightarrow> string \<Rightarrow> (string \<times> string list \<times> (string \<times> nat) list) list" where
  "os_walk fs top_dir =
     (case os_stat fs top_dir of None \<Rightarrow> [] | Some n \<Rightarrow> walk_node top_dir n)"

subsection \<open>Errors\<close>

text \<open>Every exception carries its message.\<close>

datatype error =
    FileNotFoundError string
  | DuplicatedNodeIdError string
  | MultipleRootError string
  | NodeIDAbsentError string

fun error_str :: "error \<Rightarrow> string" where
  "error_str (FileNotFoundError m) = m"
| "error_str (DuplicatedNodeIdError m) = m"
| "error_str (MultipleRootError m) = m"
| "error_str (NodeIDAbsentError m) = m"

subsection \<open>The \<open>treelib\<close> tree\<close>

datatype node = Node (node_id: string) (node_tag: string) (node_parent: "string option")

type_synonym tree = "node list"

definition contains :: "tree \<Rightarrow> string \<Rightarrow> bool" where
  "contains t nid = (nid \<in> node_id ` set t)"

definition has_root :: "tree \<Rightarrow> bool" where
  "has_root t = (None \<in> node_parent ` set t)"

definition create_node :: "string \<Rightarrow> string \<Rightarrow> string option \<Rightarrow> tree \<Rightarrow> error + tree" where
  "create_node tg nid par t =
     (if contains t nid
      then Inl (DuplicatedNodeIdError
                 (''Can't create node with ID '' @ [CHR 0x27] @ nid @ [CHR 0x27]))
      else case par of
        None \<Rightarrow>
          if has_root t then Inl (MultipleRootError ''A tree takes one root merely.'')
          else Inr (t @ [Node nid tg None])
      | Some pid \<Rightarrow>
          if \<not> contains t pid
          then Inl (NodeIDAbsentError
                 (''Parent node '' @ [CHR 0x27] @ pid @ [CHR 0x27] @ '' is not in the tree''))
          else Inr (t @ [Node nid tg (Some pid)]))"

subsection \<open>The scanner: \<open>get_file_info\<close>\<close>

record file_record =
  Folder :: string
  File_Name :: string
  File_Size_KB :: rat
  File_Type :: string

text \<open>
  The dictionary appended for one file. \<open>guess_type\<close> is the first component of what
  \<open>mimetypes.guess_type\<close> returns; \<open>None\<close> and the empty string are both falsy.
\<close>

definition make_record :: "(string \<Rightarrow> string option) \<Rightarrow> string \<Rightarrow> string \<Rightarrow> nat \<Rightarrow> file_record" where
  "make_record guess_type root_dir file file_size =
     \<lparr>Folder = root_dir,
      File_Name = file,
      File_Size_KB = py_round (of_nat file_size / 1024) 2,
      File_Type = (case guess_type (path_join root_dir file) of
                     None \<Rightarrow> ''Unknown''
                   | Some file_type \<Rightarrow> if file_type = [] then ''Unknown'' else file_type)\<rparr>"

text \<open>The inner loop, over the files of one directory.\<close>

fun scan_files ::
  "(string \<Rightarrow> string option) \<Rightarrow> string \<Rightarrow> string \<Rightarrow> (string \<times> nat) list \<Rightarrow>
   file_record list \<times> tree \<Rightarrow> error + (file_record list \<times> tree)" where
  "scan_files guess_type directory root_dir [] st = Inr st"
| "scan_files guess_type directory root_dir ((file, file_size) # files) (file_data, file_structure) =
     (case (if \<not> contains file_structure root_dir
            then create_node root_dir root_dir (Some directory) file_structure
            else Inr file_structure) of
        Inl e \<Rightarrow> Inl e
      | Inr t1 \<Rightarrow>
          (case create_node file (path_join root_dir file) (Some root_dir) t1 of
             Inl e \<Rightarrow> Inl e
           | Inr t2 \<Rightarrow>
               scan_files guess_type directory root_dir files
                 (file_data @ [make_record guess_type root_dir file file_size], t2)))"

text \<open>The outer loop, over the triples of the walk.\<close>

fun scan_walk ::
  "(string \<Rightarrow> string option) \<Rightarrow> string \<Rightarrow> (string \<times> string list \<times> (string \<times> nat) list) list \<Rightarrow>
   file_record list \<times> tree \<Rightarrow> error + (file_record list \<times> tree)" where
  "scan_walk guess_type directory [] st = Inr st"
| "scan_walk guess_type directory ((root_dir, dirs, files) # rest) st =
     (case scan_files guess_type directory root_dir files st of
        Inl e \<Rightarrow> Inl e
      | Inr st' \<Rightarrow> scan_walk guess_type directory rest st')"

definition not_found_message :: string where
  "not_found_message =
     ''The specified file path does not exist. Please provide a valid directory.''"

definition get_file_info ::
  "(string \<Rightarrow> string option) \<Rightarrow> filesystem \<Rightarrow> string \<Rightarrow> error + (file_record list \<times> tree)" where
  "get_file_info guess_type fs directory =
     (if \<not> os_path_exists fs directory then Inl (FileNotFoundError not_found_message)
      else case create_node directory directory None [] of
             Inl e \<Rightarrow> Inl e
           | Inr file_structure \<Rightarrow>
               scan_walk guess_type directory (os_walk fs directory) ([], file_structure))"

subsection \<open>The aggregate views\<close>

text \<open>
  A pandas \<open>Series\<close> is modelled as the finite map from its index keys to its values; the
  order of the index is not modelled. \<open>groupby(key)[col].sum()\<close> has one key per distinct
  value of the key column, \<open>value_counts()\<close> likewise.
\<close>

definition groupby_sum ::
  "(file_record \<Rightarrow> string) \<Rightarrow> (file_record \<Rightarrow> rat) \<Rightarrow> file_record list \<Rightarrow> string \<rightharpoonup> rat" where
  "groupby_sum key col df =
     (\<lambda>k. if k \<in> key ` set df then Some (sum_list (map col (filter (\<lambda>r. key r = k) df)))
          else None)"

definition value_counts :: "(file_record \<Rightarrow> string) \<Rightarrow> file_record list \<Rightarrow> string \<rightharpoonup> nat" where
  "value_counts key df =
     (\<lambda>k. if k \<in> key ` set df then Some (length (filter (\<lambda>r. key r = k) df)) else None)"

definition file_size_by_type :: "file_record list \<Rightarrow> string \<rightharpoonup> rat" where
  "file_size_by_type df = groupby_sum File_Type File_Size_KB df"

definition folder_count :: "file_record list \<Rightarrow> string \<rightharpoonup> nat" where
  "folder_count df = value_counts Folder df"

definition file_type_count :: "file_record list \<Rightarrow> string \<rightharpoonup> nat" where
  "file_type_count df = value_counts File_Type df"

definition folder_size :: "file_record list \<Rightarrow> string \<rightharpoonup> rat" where
  "folder_size df = groupby_sum Folder File_Size_KB df"

definition type_size_dist :: "file_record list \<Rightarrow> string \<rightharpoonup> rat" where
  "type_size_dist df = groupby_sum File_Type File_Size_KB df"


subsection \<open>The reporter: \<open>display_results\<close> and \<open>main\<close>\<close>

datatype event =
    Input string
  | Print string
  | Window_Create string
  | Bar_Chart string "string \<rightharpoonup> rat"
  | Window_Show
  | Pdf_Output string "file_record list"
  | Event_Loop

definition save_pdf_report :: "file_record list \<Rightarrow> string \<Rightarrow> event list" where
  "save_pdf_report df output_filename =
     [Pdf_Output output_filename df, Print (''PDF report saved as '' @ output_filename)]"

text \<open>The tick label of a key: cosmetic, the bar stays keyed by the full string.\<close>

definition basename :: "string \<Rightarrow> string" where
  "basename p = rev (takeWhile (\<lambda>c. c \<noteq> CHR ''/'') (rev p))"

definition shortened_label :: "string \<Rightarrow> string" where
  "shortened_label x = (if 15 < length x then basename x else x)"

definition create_bar_chart :: "string \<Rightarrow> (string \<rightharpoonup> rat) \<Rightarrow> event" where
  "create_bar_chart title series = Bar_Chart title series"

definition counts_as_heights :: "(string \<rightharpoonup> nat) \<Rightarrow> string \<rightharpoonup> rat" where
  "counts_as_heights s = (\<lambda>k. map_option of_nat (s k))"

definition display_results :: "file_record list \<Rightarrow> tree \<Rightarrow> event list" where
  "display_results file_data file_structure =
     (let df = file_data
      in if df = [] then [Print ''No files found in the specified directory.'']
         else
           [Window_Create ''File Analysis'',
            create_bar_chart ''File Size Distribution By Type'' (file_size_by_type df),
            create_bar_chart ''File Count Per Folder'' (counts_as_heights (folder_count df)),
            create_bar_chart ''File Type Count'' (counts_as_heights (file_type_count df)),
            create_bar_chart ''Folder-Wise File Size'' (folder_size df),
            create_bar_chart ''File Type-Wise Size Distribution'' (type_size_dist df),
            Window_Show]
           @ save_pdf_report df ''file_analysis_report.pdf''
           @ [Event_Loop])"

definition main :: "(string \<Rightarrow> string option) \<Rightarrow> filesystem \<Rightarrow> string \<Rightarrow> event list" where
  "main guess_type fs directory =
     Input ''Enter the directory path: '' #
     (case get_file_info guess_type fs directory of
        Inr (file_data, file_structure) \<Rightarrow> display_results file_data file_structure
      | Inl (FileNotFoundError m) \<Rightarrow> [Print (''Error: '' @ m)]
      | Inl e \<Rightarrow> [Print (''An unexpected error occurred: '' @ error_str e)])"

subsection \<open>Files reachable under a directory\<close>

text \<open>
  \<open>file_at d p sz\<close>: following the names \<open>p\<close> from the directory \<open>d\<close> leads to a regular file
  of \<open>sz\<close> bytes.
\<close>

inductive file_at :: "fsnode \<Rightarrow> string list \<Rightarrow> nat \<Rightarrow> bool" where
  file_here: "(n, RegFile sz) \<in> set es \<Longrightarrow> file_at (Directory es) [n] sz"
| file_below: "(n, Directory ds) \<in> set es \<Longrightarrow> file_at (Directory ds) p sz \<Longrightarrow>
     file_at (Directory es) (n # p) sz"



text \<open>The record that belongs to the file at the names \<open>p\<close> below the scanned directory.\<close>

definition record_at :: "(string \<Rightarrow> string option) \<Rightarrow> string \<Rightarrow> string list \<Rightarrow> nat \<Rightarrow> file_record" where
  "record_at guess_type directory p sz =
     make_record guess_type (foldl path_join directory (butlast p)) (last p) sz"

text \<open>
  Auxiliary notions for the proofs: the files under a node in the order of the walk, the
  node that a list of names resolves to, the flat list of (folder, file, size) that the two
  loops of the scanner run through, and the slash-separated tail of a path.
\<close>

fun files_under :: "fsnode \<Rightarrow> (string list \<times> nat) list"
  and files_in :: "(string \<times> fsnode) list \<Rightarrow> (string list \<times> nat) list" where
  "files_under (RegFile sz) = []"
| "files_under (Directory es) = map (\<lambda>(n, sz). ([n], sz)) (nondirs es) @ files_in es"
| "files_in [] = []"
| "files_in ((n, c) # es) = map (\<lambda>(p, sz). (n # p, sz)) (files_under c) @ files_in es"


definition walk_entries ::
  "(string \<times> string list \<times> (string \<times> nat) list) list \<Rightarrow> (string \<times> string \<times> nat) list" where
  "walk_entries w = concat (map (\<lambda>(r, ds, fs). map (\<lambda>(f, sz). (r, f, sz)) fs) w)"


definition entry_of :: "string \<Rightarrow> string list \<times> nat \<Rightarrow> string \<times> string \<times> nat" where
  "entry_of tp x = (foldl path_join tp (butlast (fst x)), last (fst x), snd x)"


text \<open>
  The two nested loops of the scanner as one loop over the flat list of entries, and the
  path string that the loop body builds for an entry.
\<close>

fun scan_flat ::
  "(string \<Rightarrow> string option) \<Rightarrow> string \<Rightarrow> (string \<times> string \<times> nat) list \<Rightarrow>
   file_record list \<times> tree \<Rightarrow> error + (file_record list \<times> tree)" where
  "scan_flat g d [] st = Inr st"
| "scan_flat g d ((r, f, sz) # es) (fd, t) =
     (case (if \<not> contains t r then create_node r r (Some d) t else Inr t) of
        Inl e \<Rightarrow> Inl e
      | Inr t1 \<Rightarrow>
          (case create_node f (path_join r f) (Some r) t1 of
             Inl e \<Rightarrow> Inl e
           | Inr t2 \<Rightarrow> scan_flat g d es (fd @ [make_record g r f sz], t2)))"


section \<open>Properties of the aggregate views\<close>

subsection \<open>Totals over all keys\<close>









subsection \<open>Independence of the record order\<close>








subsection \<open>The two size-by-type views\<close>

text \<open>
  Claim C9. The fifth view, the size-by-type grouping computed for the second type-size
  chart, is the same mapping as the first view, key for key and value for value.
\<close>

theorem type_size_dist_eq_file_size_by_type:
  "type_size_dist df = file_size_by_type df"
  by (simp add: type_size_dist_def file_size_by_type_def)

section \<open>Properties of the reporter\<close>

text \<open>
  Claim C8. Handed an empty record sequence, the reporter prints the notice that no files
  were found and returns: no window is created or shown, no chart is drawn and the PDF
  report is not written.
\<close>

theorem display_results_empty_short_circuits:
  "display_results [] file_structure = [Print ''No files found in the specified directory.'']"
  by (simp add: display_results_def)

section \<open>Properties of the scanner\<close>

subsection \<open>Rounding to two decimals\<close>






subsection \<open>The files under a node\<close>

lemma nondirs_iff: "(n, sz) \<in> set (nondirs es) \<longleftrightarrow> (n, RegFile sz) \<in> set es"
  by (induction es rule: nondirs.induct) auto

lemma in_map_cons_iff:
  "(q, sz) \<in> set (map (\<lambda>(p, sz). (n # p, sz)) xs) \<longleftrightarrow> (\<exists>p. q = n # p \<and> (p, sz) \<in> set xs)"
  by (induction xs) auto

lemma in_map_single_iff:
  "(q, sz) \<in> set (map (\<lambda>(n, sz). ([n], sz)) xs) \<longleftrightarrow> (\<exists>n. q = [n] \<and> (n, sz) \<in> set xs)"
  by (induction xs) auto

lemma files_in_iff:
  "(q, sz) \<in> set (files_in es) \<longleftrightarrow>
   (\<exists>n c p. (n, c) \<in> set es \<and> (p, sz) \<in> set (files_under c) \<and> q = n # p)"
proof (induction es)
  case Nil
  then show ?case by simp
next
  case (Cons e es)
  obtain n c where e: "e = (n, c)" by (cases e)
  have "(q, sz) \<in> set (files_in (e # es)) \<longleftrightarrow>
        (\<exists>p. q = n # p \<and> (p, sz) \<in> set (files_under c)) \<or> (q, sz) \<in> set (files_in es)"
    unfolding e by (simp only: files_in.simps set_append Un_iff in_map_cons_iff)
  also have "\<dots> \<longleftrightarrow>
        (\<exists>p. q = n # p \<and> (p, sz) \<in> set (files_under c)) \<or>
        (\<exists>n c p. (n, c) \<in> set es \<and> (p, sz) \<in> set (files_under c) \<and> q = n # p)"
    by (simp only: Cons.IH)
  also have "\<dots> \<longleftrightarrow>
        (\<exists>n' c' p. (n', c') \<in> set (e # es) \<and> (p, sz) \<in> set (files_under c') \<and> q = n' # p)"
    unfolding e by (simp only: list.set insert_iff prod.inject) blast
  finally show ?case .
qed

lemma files_under_Directory_iff:
  "(q, sz) \<in> set (files_under (Directory es)) \<longleftrightarrow>
   (\<exists>n. q = [n] \<and> (n, RegFile sz) \<in> set es) \<or> (q, sz) \<in> set (files_in es)"
  by (simp only: files_under.simps set_append Un_iff in_map_single_iff nondirs_iff)

lemma files_under_nonempty:
  "(p, sz) \<in> set (files_under d) \<Longrightarrow> p \<noteq> []"
  by (cases d) (auto simp: files_under_Directory_iff files_in_iff)

lemma files_under_is_dir: "(p, sz) \<in> set (files_under d) \<Longrightarrow> \<exists>ds. d = Directory ds"
  by (cases d) auto

lemma files_under_sound:
  "(p, sz) \<in> set (files_under d) \<Longrightarrow> file_at d p sz"
proof (induction p arbitrary: d)
  case Nil
  then show ?case using files_under_nonempty by blast
next
  case (Cons n p)
  from Cons.prems obtain es where d: "d = Directory es" using files_under_is_dir by blast
  from Cons.prems [unfolded d files_under_Directory_iff]
  consider (a) "p = []" "(n, RegFile sz) \<in> set es" | (b) "(n # p, sz) \<in> set (files_in es)"
    by auto
  then show ?case
  proof cases
    case a
    then show ?thesis unfolding d by (auto intro: file_here)
  next
    case b
    then obtain c where c: "(n, c) \<in> set es" "(p, sz) \<in> set (files_under c)"
      by (auto simp: files_in_iff)
    then obtain ds where ds: "c = Directory ds" using files_under_is_dir by blast
    from Cons.IH [OF c(2)] c(1) show ?thesis unfolding d ds by (auto intro: file_below)
  qed
qed

lemma files_under_complete:
  "file_at d p sz \<Longrightarrow> (p, sz) \<in> set (files_under d)"
proof (induction rule: file_at.induct)
  case (file_here n sz es)
  then show ?case unfolding files_under_Directory_iff by blast
next
  case (file_below n ds es p sz)
  have "(n # p, sz) \<in> set (files_in es)"
    using file_below.hyps(1) file_below.IH files_in_iff [of "n # p" sz es] by blast
  then show ?case by (simp only: files_under_Directory_iff simp_thms)
qed

lemma set_files_under: "set (files_under d) = {(p, sz). file_at d p sz}"
  using files_under_sound files_under_complete by auto

lemma walk_entries_append: "walk_entries (u @ v) = walk_entries u @ walk_entries v"
  by (simp add: walk_entries_def)

lemma walk_entries_Cons:
  "walk_entries ((r, ds, fs) # w) = map (\<lambda>(f, sz). (r, f, sz)) fs @ walk_entries w"
  by (simp add: walk_entries_def)

lemma walk_entries_Nil: "walk_entries [] = []"
  by (simp add: walk_entries_def)

lemma walk_entries_walk_node:
  "walk_entries (walk_node tp d) = map (entry_of tp) (files_under d)"
  and walk_entries_walk_subdirs:
  "walk_entries (walk_subdirs tp es) = map (entry_of tp) (files_in es)"
proof (induction tp d and tp es rule: walk_node_walk_subdirs.induct)
  case (1 tp sz)
  then show ?case by (simp add: walk_entries_Nil)
next
  case (2 tp es)
  then show ?case
    by (simp add: walk_entries_Cons entry_of_def case_prod_unfold comp_def)
next
  case (3 tp)
  then show ?case by (simp add: walk_entries_Nil)
next
  case (4 tp n c es)
  have "walk_entries (if is_dir c then walk_node (path_join tp n) c else [])
      = map (entry_of tp) (map (\<lambda>(p, sz). (n # p, sz)) (files_under c))"
  proof (cases c)
    case (RegFile sz)
    then show ?thesis by (simp add: walk_entries_Nil)
  next
    case (Directory ds)
    then have "walk_entries (if is_dir c then walk_node (path_join tp n) c else [])
        = map (entry_of (path_join tp n)) (files_under c)"
      using "4.IH"(1) by simp
    also have "\<dots> = map (entry_of tp \<circ> (\<lambda>(p, sz). (n # p, sz))) (files_under c)"
    proof (rule map_cong [OF refl])
      fix x assume "x \<in> set (files_under c)"
      then have "fst x \<noteq> []" using files_under_nonempty [of "fst x" "snd x" c] by simp
      then show "entry_of (path_join tp n) x = (entry_of tp \<circ> (\<lambda>(p, sz). (n # p, sz))) x"
        by (simp add: entry_of_def case_prod_unfold)
    qed
    finally show ?thesis by simp
  qed
  with "4.IH"(2) show ?case by (simp add: walk_entries_append)
qed

subsection \<open>Path strings\<close>











subsection \<open>Well-formed file systems\<close>











subsection \<open>The scanner as one loop, and when it succeeds\<close>

lemma scan_files_flat:
  "scan_files g d r fs st = scan_flat g d (map (\<lambda>(f, sz). (r, f, sz)) fs) st"
proof (induction fs arbitrary: st)
  case Nil
  then show ?case by simp
next
  case (Cons a fs)
  obtain f sz where a: "a = (f, sz)" by (cases a)
  obtain fd t where st: "st = (fd, t)" by (cases st)
  show ?case unfolding a st by (simp add: Cons.IH split: sum.splits)
qed

lemma scan_flat_append:
  "scan_flat g d (xs @ ys) st =
   (case scan_flat g d xs st of Inl e \<Rightarrow> Inl e | Inr st' \<Rightarrow> scan_flat g d ys st')"
proof (induction xs arbitrary: st)
  case Nil
  then show ?case by simp
next
  case (Cons a xs)
  obtain r f sz where a: "a = (r, f, sz)" by (cases a)
  obtain fd t where st: "st = (fd, t)" by (cases st)
  show ?case unfolding a st by (simp add: Cons.IH split: sum.splits)
qed

lemma scan_walk_flat: "scan_walk g d w st = scan_flat g d (walk_entries w) st"
proof (induction w arbitrary: st)
  case Nil
  then show ?case by (simp add: walk_entries_Nil)
next
  case (Cons a w)
  obtain r ds fs where a: "a = (r, ds, fs)" by (cases a)
  show ?case
    unfolding a
    by (simp add: walk_entries_Cons scan_flat_append scan_files_flat Cons.IH split: sum.splits)
qed






subsection \<open>What \<open>get_file_info\<close> returns\<close>

lemma scan_flat_records:
  "scan_flat g d es (fd, t) = Inr (fd', t') \<Longrightarrow>
   fd' = fd @ map (\<lambda>e. make_record g (fst e) (fst (snd e)) (snd (snd e))) es"
proof (induction es arbitrary: fd t)
  case Nil
  then show ?case by simp
next
  case (Cons a es)
  obtain r f sz where a: "a = (r, f, sz)" by (cases a)
  from Cons.prems obtain t2 where
    "scan_flat g d es (fd @ [make_record g r f sz], t2) = Inr (fd', t')"
    unfolding a by (auto split: sum.splits if_splits)
  from Cons.IH [OF this] show ?case by (simp add: a)
qed

lemma scan_flat_no_entries_tree:
  "scan_flat g d [] (fd, t) = Inr (fd, t)"
  by simp


lemma get_file_info_Some:
  assumes "os_stat fs directory = Some d"
  shows "get_file_info g fs directory =
         scan_flat g directory (map (entry_of directory) (files_under d))
           ([], [Node directory directory None])"
proof -
  have "create_node directory directory None [] = Inr [Node directory directory None]"
    by (simp add: create_node_def contains_def has_root_def)
  moreover have "os_walk fs directory = walk_node directory d"
    using assms by (simp add: os_walk_def)
  moreover have "os_path_exists fs directory"
    using assms by (simp add: os_path_exists_def)
  ultimately show ?thesis
    by (simp add: get_file_info_def scan_walk_flat walk_entries_walk_node)
qed

lemma get_file_info_InrD:
  assumes "get_file_info g fs directory = Inr (file_data, file_structure)"
  shows "\<exists>d. os_stat fs directory = Some d
           \<and> file_data = map (\<lambda>x. record_at g directory (fst x) (snd x)) (files_under d)"
proof -
  from assms have "os_path_exists fs directory"
    by (auto simp: get_file_info_def split: if_splits)
  then obtain d where d: "os_stat fs directory = Some d"
    by (auto simp: os_path_exists_def)
  from assms [unfolded get_file_info_Some [OF d]]
  have "file_data = [] @ map (\<lambda>e. make_record g (fst e) (fst (snd e)) (snd (snd e)))
                      (map (entry_of directory) (files_under d))"
    by (rule scan_flat_records)
  then have "file_data = map (\<lambda>x. record_at g directory (fst x) (snd x)) (files_under d)"
    by (simp add: record_at_def entry_of_def comp_def)
  with d show ?thesis by blast
qed




subsection \<open>Paths that do not exist\<close>

text \<open>
  Claim C2. For a path that does not exist the scan raises the not-found error at once:
  the result is the error alone, with no record and no tree, and the program prints the
  error without running the reporter, hence without any aggregation.
\<close>

theorem scan_missing_path_raises_not_found:
  assumes "\<not> os_path_exists fs directory"
  shows "get_file_info guess_type fs directory = Inl (FileNotFoundError not_found_message)
       \<and> main guess_type fs directory =
           [Input ''Enter the directory path: '', Print (''Error: '' @ not_found_message)]"
  using assms by (simp add: get_file_info_def main_def)

theorem scan_missing_path_raises_not_found_witness:
  "\<not> os_path_exists Map.empty ''missing''
   \<and> get_file_info (\<lambda>p. None) Map.empty ''missing'' = Inl (FileNotFoundError not_found_message)
   \<and> main (\<lambda>p. None) Map.empty ''missing'' =
        [Input ''Enter the directory path: '', Print (''Error: '' @ not_found_message)]"
  using scan_missing_path_raises_not_found [of Map.empty "''missing''" "\<lambda>p. None"]
  by (simp add: os_path_exists_def os_stat_def)

subsection \<open>A path that is a regular file\<close>

text \<open>
  Claim C10. For a path that exists but is a regular file, the scan does not raise: the
  existence check passes, the walk yields nothing, and the result is the empty record
  sequence with a tree that holds only the root node, named after the given path.
\<close>

theorem scan_regular_file_returns_empty:
  assumes "os_stat fs directory = Some (RegFile sz)"
  shows "os_path_exists fs directory
       \<and> os_walk fs directory = []
       \<and> get_file_info guess_type fs directory = Inr ([], [Node directory directory None])"
  using assms
  by (simp add: get_file_info_def os_path_exists_def os_walk_def create_node_def contains_def
      has_root_def)

theorem scan_regular_file_returns_empty_witness:
  "os_stat [''notes.txt'' \<mapsto> RegFile 2048] ''notes.txt'' = Some (RegFile 2048)
   \<and> os_path_exists [''notes.txt'' \<mapsto> RegFile 2048] ''notes.txt''
   \<and> os_walk [''notes.txt'' \<mapsto> RegFile 2048] ''notes.txt'' = []
   \<and> get_file_info (\<lambda>p. Some ''text/plain'') [''notes.txt'' \<mapsto> RegFile 2048] ''notes.txt''
       = Inr ([], [Node ''notes.txt'' ''notes.txt'' None])"
  using scan_regular_file_returns_empty
    [of "[''notes.txt'' \<mapsto> RegFile 2048]" "''notes.txt''" 2048 "\<lambda>p. Some ''text/plain''"]
  by (simp add: os_stat_def)

subsection \<open>Directories\<close>




subsection \<open>The fields of a record\<close>




text \<open>
  Claim C5. Every record that the scan returns has a type that is not empty, and that is
  either the string \<open>Unknown\<close> or the MIME type that the type guess returned for the file's
  path; when the guess yields no type, the record's type is \<open>Unknown\<close>.
\<close>

theorem scan_record_type:
  assumes "get_file_info guess_type fs directory = Inr (file_data, file_structure)"
    and "r \<in> set file_data"
  shows "File_Type r \<noteq> []
       \<and> (File_Type r = ''Unknown''
          \<or> guess_type (path_join (Folder r) (File_Name r)) = Some (File_Type r))
       \<and> (guess_type (path_join (Folder r) (File_Name r)) = None \<longrightarrow> File_Type r = ''Unknown'')"
proof -
  from get_file_info_InrD [OF assms(1)] obtain d where
    fd: "file_data = map (\<lambda>x. record_at guess_type directory (fst x) (snd x)) (files_under d)"
    by blast
  from assms(2) fd obtain p sz where r: "r = record_at guess_type directory p sz"
    by auto
  show ?thesis
    by (simp add: r record_at_def make_record_def split: option.splits)
qed


theorem scan_record_type_witness:
  "get_file_info (\<lambda>p. if p = ''d/a.txt'' then Some ''text/plain'' else None)
     [''d'' \<mapsto> Directory [(''a.txt'', RegFile 2048), (''b'', RegFile 512)]] ''d''
   = Inr ([\<lparr>Folder = ''d'', File_Name = ''a.txt'', File_Size_KB = 2, File_Type = ''text/plain''\<rparr>,
           \<lparr>Folder = ''d'', File_Name = ''b'', File_Size_KB = 1 / 2, File_Type = ''Unknown''\<rparr>],
          [Node ''d'' ''d'' None, Node ''d/a.txt'' ''a.txt'' (Some ''d''),
           Node ''d/b'' ''b'' (Some ''d'')])
   \<and> \<lparr>Folder = ''d'', File_Name = ''b'', File_Size_KB = 1 / 2, File_Type = ''Unknown''\<rparr>
       \<in> set [\<lparr>Folder = ''d'', File_Name = ''a.txt'', File_Size_KB = 2, File_Type = ''text/plain''\<rparr>,
               \<lparr>Folder = ''d'', File_Name = ''b'', File_Size_KB = 1 / 2, File_Type = ''Unknown''\<rparr>]
   \<and> File_Type \<lparr>Folder = ''d'', File_Name = ''b'', File_Size_KB = 1 / 2, File_Type = ''Unknown''\<rparr> \<noteq> []
   \<and> (\<lambda>p. if p = ''d/a.txt'' then Some ''text/plain'' else None)
        (path_join (Folder \<lparr>Folder = ''d'', File_Name = ''b'', File_Size_KB = 1 / 2, File_Type = ''Unknown''\<rparr>)
           (File_Name \<lparr>Folder = ''d'', File_Name = ''b'', File_Size_KB = 1 / 2, File_Type = ''Unknown''\<rparr>)) = None
   \<and> File_Type \<lparr>Folder = ''d'', File_Name = ''b'', File_Size_KB = 1 / 2, File_Type = ''Unknown''\<rparr> = ''Unknown''
   \<and> \<lparr>Folder = ''d'', File_Name = ''a.txt'', File_Size_KB = 2, File_Type = ''text/plain''\<rparr>
       \<in> set [\<lparr>Folder = ''d'', File_Name = ''a.txt'', File_Size_KB = 2, File_Type = ''text/plain''\<rparr>,
               \<lparr>Folder = ''d'', File_Name = ''b'', File_Size_KB = 1 / 2, File_Type = ''Unknown''\<rparr>]
   \<and> (\<lambda>p. if p = ''d/a.txt'' then Some ''text/plain'' else None)
        (path_join (Folder \<lparr>Folder = ''d'', File_Name = ''a.txt'', File_Size_KB = 2, File_Type = ''text/plain''\<rparr>)
           (File_Name \<lparr>Folder = ''d'', File_Name = ''a.txt'', File_Size_KB = 2, File_Type = ''text/plain''\<rparr>))
       = Some (File_Type \<lparr>Folder = ''d'', File_Name = ''a.txt'', File_Size_KB = 2, File_Type = ''text/plain''\<rparr>)"
proof -
  let ?g = "(\<lambda>p. if p = ''d/a.txt'' then Some ''text/plain'' else None)"
  let ?fs = "[''d'' \<mapsto> Directory [(''a.txt'', RegFile 2048), (''b'', RegFile 512)]]"
  let ?a = "\<lparr>Folder = ''d'', File_Name = ''a.txt'', File_Size_KB = 2, File_Type = ''text/plain''\<rparr>"
  let ?b = "\<lparr>Folder = ''d'', File_Name = ''b'', File_Size_KB = 1 / 2, File_Type = ''Unknown''\<rparr>"
  let ?t = "[Node ''d'' ''d'' None, Node ''d/a.txt'' ''a.txt'' (Some ''d''),
           Node ''d/b'' ''b'' (Some ''d'')]"
  have h1: "get_file_info ?g ?fs ''d'' = Inr ([?a, ?b], ?t)"
    by (simp add: get_file_info_def os_path_exists_def os_stat_def os_walk_def create_node_def
        contains_def has_root_def make_record_def path_join_def py_round_def round_half_even_def)
  have h2: "?b \<in> set [?a, ?b]" by simp
  have h3: "?a \<in> set [?a, ?b]" by simp
  from scan_record_type [OF h1 h2] scan_record_type [OF h1 h3] h1 h2 h3 show ?thesis
    by (simp add: path_join_def)
qed

subsection \<open>Directories without files\<close>

text \<open>
  Claim C6. For an existing directory under which no file is reachable, the scan does not
  raise and returns the empty record sequence (with the tree of the root node alone).
\<close>

theorem scan_directory_without_files:
  assumes "os_stat fs directory = Some d" "is_dir d" "\<forall>p sz. \<not> file_at d p sz"
  shows "get_file_info guess_type fs directory = Inr ([], [Node directory directory None])"
proof -
  have "set (files_under d) = {}" using assms(3) by (simp add: set_files_under)
  then have "files_under d = []" by simp
  then show ?thesis by (simp add: get_file_info_Some [OF assms(1)])
qed

theorem scan_directory_without_files_witness:
  "os_stat [''d'' \<mapsto> Directory [(''sub'', Directory [])]] ''d'' = Some (Directory [(''sub'', Directory [])])
   \<and> is_dir (Directory [(''sub'', Directory [])])
   \<and> (\<forall>p sz. \<not> file_at (Directory [(''sub'', Directory [])]) p sz)
   \<and> get_file_info (\<lambda>p. None) [''d'' \<mapsto> Directory [(''sub'', Directory [])]] ''d''
       = Inr ([], [Node ''d'' ''d'' None])"
proof -
  let ?d = "Directory [(''sub'', Directory [])]"
  let ?fs = "[''d'' \<mapsto> Directory [(''sub'', Directory [])]]"
  have h1: "os_stat ?fs ''d'' = Some ?d" by (simp add: os_stat_def)
  have h2: "is_dir ?d" by simp
  have "{(p, sz). file_at ?d p sz} = set (files_under ?d)" by (simp only: set_files_under)
  also have "\<dots> = {}" by simp
  finally have h3: "\<forall>p sz. \<not> file_at ?d p sz" by blast
  from scan_directory_without_files [OF h1 h2 h3, of "\<lambda>p. None"] h1 h2 h3 show ?thesis by blast
qed

section \<open>A worked scenario\<close>

text \<open>
  A directory with one 2048-byte \<open>.txt\<close> file and one 512-byte file of unknown type: two
  records of 2 KB and 0.5 KB, a size-by-type grouping with two keys and a count-by-folder
  grouping with one key.
\<close>

lemma scenario_scan:
  "get_file_info (\<lambda>p. if p = ''d/a.txt'' then Some ''text/plain'' else None)
     [''d'' \<mapsto> Directory [(''a.txt'', RegFile 2048), (''b'', RegFile 512)]] ''d''
   = Inr ([\<lparr>Folder = ''d'', File_Name = ''a.txt'', File_Size_KB = 2, File_Type = ''text/plain''\<rparr>,
           \<lparr>Folder = ''d'', File_Name = ''b'', File_Size_KB = 1 / 2, File_Type = ''Unknown''\<rparr>],
          [Node ''d'' ''d'' None, Node ''d/a.txt'' ''a.txt'' (Some ''d''),
           Node ''d/b'' ''b'' (Some ''d'')])"
  by (simp add: get_file_info_def os_path_exists_def os_stat_def os_walk_def create_node_def
      contains_def has_root_def make_record_def path_join_def py_round_def round_half_even_def)

lemma scenario_groupings:
  "file_size_by_type
     [\<lparr>Folder = ''d'', File_Name = ''a.txt'', File_Size_KB = 2, File_Type = ''text/plain''\<rparr>,
      \<lparr>Folder = ''d'', File_Name = ''b'', File_Size_KB = 1 / 2, File_Type = ''Unknown''\<rparr>]
   = [''text/plain'' \<mapsto> 2, ''Unknown'' \<mapsto> 1 / 2]
   \<and> folder_count
     [\<lparr>Folder = ''d'', File_Name = ''a.txt'', File_Size_KB = 2, File_Type = ''text/plain''\<rparr>,
      \<lparr>Folder = ''d'', File_Name = ''b'', File_Size_KB = 1 / 2, File_Type = ''Unknown''\<rparr>]
   = [''d'' \<mapsto> 2]"
  by (auto simp: file_size_by_type_def folder_count_def groupby_sum_def value_counts_def fun_eq_iff)

end
